theory Spec2Isabelle
  imports Complex_Main "HOL-Library.Multiset" "HOL-Library.List_Lexorder" "HOL-Library.Char_ord"
begin

section \<open>The RFM feature builder of the CLV notebook\<close>

text \<open>
  The notebook cell reads the transaction sheet into a data frame and runs

  \<^verbatim>\<open>
  data.dropna(subset=['Customer ID'], inplace=True)
  data = data[~data['Invoice'].astype(str).str.startswith('C')]
  data['TotalPrice'] = data['Quantity'] * data['Price']
  latest_date = data['InvoiceDate'].max()
  rfm = data.groupby('Customer ID').agg({
      'InvoiceDate': lambda x: (latest_date - x.max()).days,
      'Invoice': 'nunique',
      'TotalPrice': 'sum'
  }).reset_index()
  rfm.columns = ['Customer ID', 'Recency', 'Frequency', 'Monetary']
  customer_first_purchase = data.groupby('Customer ID')['InvoiceDate'].min().reset_index()
  customer_first_purchase.columns = ['Customer ID', 'FirstPurchaseDate']
  rfm = rfm.merge(customer_first_purchase, on='Customer ID')
  rfm['Tenure'] = (latest_date - rfm['FirstPurchaseDate']).dt.days
  \<close>

  A data frame is modelled as the list of its rows, in row order. The cells of the
  sheet are modelled as the sheet has them: the invoice column holds numbers
  (\<open>489434\<close>) and text (\<open>C489449\<close>), the customer column holds a number or is
  empty (NaN), the quantity is an integer, the price a decimal number, and the
  invoice date is a timestamp or empty (NaT). A timestamp is kept as the count of
  nanoseconds that pandas stores for \<open>datetime64[ns]\<close>, a 64-bit integer. Prices
  are real numbers here: the rounding of floating-point sums is not part of the model.
\<close>

datatype invoice_id = InvoiceNum int | InvoiceStr string

record transaction =
  Invoice :: invoice_id
  Customer_ID :: "int option"
  Quantity :: int
  Price :: real
  InvoiceDate :: "int option"

subsection \<open>\<open>astype(str)\<close> and \<open>str.startswith\<close>\<close>

definition digit_char :: "nat \<Rightarrow> char" where
  "digit_char d = ''0123456789'' ! d"

fun str_nat :: "nat \<Rightarrow> string" where
  "str_nat n = (if n < 10 then [digit_char n] else str_nat (n div 10) @ [digit_char (n mod 10)])"

declare str_nat.simps [simp del]

definition str_int :: "int \<Rightarrow> string" where
  "str_int i = (if i < 0 then CHR ''-'' # str_nat (nat (- i)) else str_nat (nat i))"

text \<open>\<open>astype(str)\<close> on the invoice column: Python's \<open>str\<close> of each cell.\<close>

fun astype_str :: "invoice_id \<Rightarrow> string" where
  "astype_str (InvoiceNum i) = str_int i"
| "astype_str (InvoiceStr s) = s"

definition startswith :: "string \<Rightarrow> string \<Rightarrow> bool" where
  "startswith s p = (take (length p) s = p)"

subsection \<open>Preprocessing\<close>

definition dropna_Customer_ID :: "transaction list \<Rightarrow> transaction list" where
  "dropna_Customer_ID data = filter (\<lambda>t. Customer_ID t \<noteq> None) data"

definition drop_cancelled :: "transaction list \<Rightarrow> transaction list" where
  "drop_cancelled data = filter (\<lambda>t. \<not> startswith (astype_str (Invoice t)) ''C'') data"

definition preprocess :: "transaction list \<Rightarrow> transaction list" where
  "preprocess data = drop_cancelled (dropna_Customer_ID data)"

text \<open>The added column \<open>TotalPrice\<close> is a function of the row.\<close>

definition TotalPrice :: "transaction \<Rightarrow> real" where
  "TotalPrice t = of_int (Quantity t) * Price t"

subsection \<open>Timestamps\<close>

text \<open>
  \<open>max\<close> and \<open>min\<close> of a timestamp column skip the empty cells and give NaT when
  nothing is left; NaT is \<open>None\<close>. A difference with NaT is NaT. A difference of two
  timestamps is a \<open>Timedelta\<close>, again a 64-bit count of nanoseconds: when the
  difference does not fit, \<open>Timestamp - Timestamp\<close> raises
  \<open>OutOfBoundsDatetime\<close> and \<open>Timestamp - Series\<close> raises \<open>OverflowError\<close>.
  \<open>.days\<close> of a time difference is its floor division by one day, and has no value
  (NaN) on NaT.
\<close>

datatype error = OutOfBoundsDatetime | OverflowError | ValueError

fun series_max :: "int list \<Rightarrow> int option" where
  "series_max [] = None"
| "series_max (x # xs) = Some (fold max xs x)"

fun series_min :: "int list \<Rightarrow> int option" where
  "series_min [] = None"
| "series_min (x # xs) = Some (fold min xs x)"

text \<open>The timestamps of the column \<open>InvoiceDate\<close> that are not NaT.\<close>

definition dates :: "transaction list \<Rightarrow> int list" where
  "dates rows = List.map_filter InvoiceDate rows"

definition ns_per_day :: int where
  "ns_per_day = 86400 * 1000000000"

definition timedelta_max :: int where
  "timedelta_max = 2 ^ 63 - 1"

definition fits_timedelta :: "int \<Rightarrow> bool" where
  "fits_timedelta d \<longleftrightarrow> - timedelta_max \<le> d \<and> d \<le> timedelta_max"

fun time_diff :: "int option \<Rightarrow> int option \<Rightarrow> int option" where
  "time_diff (Some a) (Some b) = Some (a - b)"
| "time_diff _ _ = None"

fun diff_fits :: "int option \<Rightarrow> int option \<Rightarrow> bool" where
  "diff_fits (Some a) (Some b) = fits_timedelta (a - b)"
| "diff_fits _ _ = True"

text \<open>\<open>Timestamp - Timestamp\<close>, and \<open>Timestamp - Series\<close> on a whole column.\<close>

definition timestamp_sub :: "int option \<Rightarrow> int option \<Rightarrow> error + int option" where
  "timestamp_sub a b = (if diff_fits a b then Inr (time_diff a b) else Inl OutOfBoundsDatetime)"

definition timestamp_sub_series :: "int option \<Rightarrow> int option list \<Rightarrow> error + int option list" where
  "timestamp_sub_series a col =
     (if list_all (diff_fits a) col then Inr (map (time_diff a) col) else Inl OverflowError)"

definition days :: "int option \<Rightarrow> int option" where
  "days d = map_option (\<lambda>x. x div ns_per_day) d"

definition latest_date :: "transaction list \<Rightarrow> int option" where
  "latest_date data = series_max (dates data)"

subsection \<open>Grouping and aggregation\<close>

text \<open>
  \<open>groupby('Customer ID')\<close> makes one group per distinct customer id, in
  ascending order of the id; rows without a customer id belong to no group.
  Each group keeps its rows in frame order. The aggregation visits the groups in
  that order, and an exception raised for one group ends the cell.
\<close>

definition customer_rows :: "int \<Rightarrow> transaction list \<Rightarrow> transaction list" where
  "customer_rows c data = filter (\<lambda>t. Customer_ID t = Some c) data"

definition group_keys :: "transaction list \<Rightarrow> int list" where
  "group_keys data = sort (remdups (List.map_filter Customer_ID data))"

definition groupby_Customer_ID :: "transaction list \<Rightarrow> (int \<times> transaction list) list" where
  "groupby_Customer_ID data = map (\<lambda>c. (c, customer_rows c data)) (group_keys data)"

definition nunique :: "'a list \<Rightarrow> nat" where
  "nunique xs = length (remdups xs)"

fun collect :: "('e + 'a) list \<Rightarrow> 'e + 'a list" where
  "collect [] = Inr []"
| "collect (Inl e # xs) = Inl e"
| "collect (Inr v # xs) = (case collect xs of Inl e \<Rightarrow> Inl e | Inr vs \<Rightarrow> Inr (v # vs))"

record rfm_agg =
  agg_Customer_ID :: int
  agg_Recency :: "int option"
  agg_Frequency :: nat
  agg_Monetary :: real

definition rfm_aggregate :: "transaction list \<Rightarrow> error + rfm_agg list" where
  "rfm_aggregate data =
     collect
       (map (\<lambda>(c, rows).
               case timestamp_sub (latest_date data) (series_max (dates rows)) of
                 Inl e \<Rightarrow> Inl e
               | Inr d \<Rightarrow>
                   Inr \<lparr> agg_Customer_ID = c,
                         agg_Recency = days d,
                         agg_Frequency = nunique (map Invoice rows),
                         agg_Monetary = sum_list (map TotalPrice rows) \<rparr>)
            (groupby_Customer_ID data))"

definition customer_first_purchase :: "transaction list \<Rightarrow> (int \<times> int option) list" where
  "customer_first_purchase data =
     map (\<lambda>(c, rows). (c, series_min (dates rows))) (groupby_Customer_ID data)"

text \<open>
  \<open>merge(on='Customer ID')\<close> is an inner join: every pair of a left and a right row
  with the same key, in the order of the left rows.
\<close>

definition merge :: "rfm_agg list \<Rightarrow> (int \<times> int option) list \<Rightarrow> (rfm_agg \<times> int option) list" where
  "merge left right =
     concat (map (\<lambda>a. map (\<lambda>(c, d). (a, d)) (filter (\<lambda>(c, d). c = agg_Customer_ID a) right)) left)"

record rfm_row =
  rfm_Customer_ID :: int
  Recency :: "int option"
  Frequency :: nat
  Monetary :: real
  FirstPurchaseDate :: "int option"
  Tenure :: "int option"

definition with_Tenure :: "rfm_agg \<times> int option \<Rightarrow> int option \<Rightarrow> rfm_row" where
  "with_Tenure p tenure =
     (case p of (a, first) \<Rightarrow>
        \<lparr> rfm_Customer_ID = agg_Customer_ID a,
          Recency = agg_Recency a,
          Frequency = agg_Frequency a,
          Monetary = agg_Monetary a,
          FirstPurchaseDate = first,
          Tenure = tenure \<rparr>)"

text \<open>
  The cell up to the line that adds \<open>Tenure\<close>, from the frame as read: the table, or
  the exception that ends the cell.
\<close>

definition rfm :: "transaction list \<Rightarrow> error + rfm_row list" where
  "rfm raw =
     (let data = preprocess raw;
          latest = latest_date data
      in case rfm_aggregate data of
           Inl e \<Rightarrow> Inl e
         | Inr agg \<Rightarrow>
             (let merged = merge agg (customer_first_purchase data)
              in case timestamp_sub_series latest (map snd merged) of
                   Inl e \<Rightarrow> Inl e
                 | Inr deltas \<Rightarrow> Inr (map2 with_Tenure merged (map days deltas))))"

text \<open>
  When the cell ends without an exception: no two timestamps of the rows that are
  kept lie further apart than a \<open>Timedelta\<close> can hold (about 292 years).
\<close>

definition timestamps_fit :: "transaction list \<Rightarrow> bool" where
  "timestamps_fit data =
     list_all (\<lambda>a. list_all (\<lambda>b. a - b \<le> timedelta_max) (dates data)) (dates data)"

subsection \<open>Small transaction sheets\<close>

text \<open>
  Two customers. Customer 13085 has five rows on three invoices (two invoices are
  split over two rows each) and one cancellation; one row has neither a customer id
  nor a date.
\<close>

definition scenario1 :: "transaction list" where
  "scenario1 =
    [ \<lparr>Invoice = InvoiceNum 489434, Customer_ID = Some 13085, Quantity = 12, Price = 695 / 100, InvoiceDate = Some 0\<rparr>,
      \<lparr>Invoice = InvoiceNum 489434, Customer_ID = Some 13085, Quantity = 2, Price = 1, InvoiceDate = Some 0\<rparr>,
      \<lparr>Invoice = InvoiceNum 489435, Customer_ID = Some 13085, Quantity = 1, Price = 2, InvoiceDate = Some (3 * ns_per_day)\<rparr>,
      \<lparr>Invoice = InvoiceNum 489435, Customer_ID = Some 13085, Quantity = 4, Price = 3, InvoiceDate = Some (3 * ns_per_day)\<rparr>,
      \<lparr>Invoice = InvoiceStr ''A489436'', Customer_ID = Some 13085, Quantity = 1, Price = 2, InvoiceDate = Some (4 * ns_per_day)\<rparr>,
      \<lparr>Invoice = InvoiceStr ''C489449'', Customer_ID = Some 13085, Quantity = - 1, Price = 2, InvoiceDate = Some (4 * ns_per_day)\<rparr>,
      \<lparr>Invoice = InvoiceNum 489450, Customer_ID = None, Quantity = 1, Price = 2, InvoiceDate = None\<rparr>,
      \<lparr>Invoice = InvoiceNum 489437, Customer_ID = Some 12345, Quantity = 1, Price = 2, InvoiceDate = Some (5 * ns_per_day + 7)\<rparr>
    ]"

text \<open>
  Two customers with one purchase each, ten days apart; and one customer with two
  purchases thirteen hours apart, at 23:00 and at 12:00 of the next day.
\<close>

definition single_purchase_sheet :: "transaction list" where
  "single_purchase_sheet =
    [ \<lparr>Invoice = InvoiceNum 536365, Customer_ID = Some 17850, Quantity = 6, Price = 255 / 100, InvoiceDate = Some 0\<rparr>,
      \<lparr>Invoice = InvoiceNum 536366, Customer_ID = Some 13047, Quantity = 2, Price = 1, InvoiceDate = Some (10 * ns_per_day)\<rparr> ]"


text \<open>
  Sheets on which the columns do not all get a value: two purchases more than 292
  years apart, by two customers and by one; and a customer whose only row has no date.
\<close>

definition far_sheet :: "transaction list" where
  "far_sheet =
    [ \<lparr>Invoice = InvoiceNum 1, Customer_ID = Some 1, Quantity = 1, Price = 1, InvoiceDate = Some (- 8000000000000000000)\<rparr>,
      \<lparr>Invoice = InvoiceNum 2, Customer_ID = Some 2, Quantity = 1, Price = 1, InvoiceDate = Some 8000000000000000000\<rparr> ]"

definition far_customer_sheet :: "transaction list" where
  "far_customer_sheet =
    [ \<lparr>Invoice = InvoiceNum 1, Customer_ID = Some 1, Quantity = 1, Price = 1, InvoiceDate = Some (- 8000000000000000000)\<rparr>,
      \<lparr>Invoice = InvoiceNum 2, Customer_ID = Some 1, Quantity = 1, Price = 1, InvoiceDate = Some 8000000000000000000\<rparr> ]"

definition undated_sheet :: "transaction list" where
  "undated_sheet =
    [ \<lparr>Invoice = InvoiceNum 1, Customer_ID = Some 1, Quantity = 1, Price = 1, InvoiceDate = None\<rparr>,
      \<lparr>Invoice = InvoiceNum 2, Customer_ID = Some 2, Quantity = 1, Price = 1, InvoiceDate = Some 0\<rparr> ]"

subsection \<open>Properties of the feature builder\<close>

lemma digit_char_neq_C: "d < 10 \<Longrightarrow> digit_char d \<noteq> CHR ''C''"
proof -
  assume "d < 10"
  then have "d \<in> {0,1,2,3,4,5,6,7,8,9}" by auto
  then show ?thesis by (auto simp: digit_char_def)
qed

lemma str_nat_head: "\<exists>c r. str_nat n = c # r \<and> c \<noteq> CHR ''C''"
proof (induction n rule: str_nat.induct)
  case (1 n)
  show ?case
  proof (cases "n < 10")
    case True
    then show ?thesis by (simp add: str_nat.simps digit_char_neq_C)
  next
    case False
    with 1 obtain c r where "str_nat (n div 10) = c # r" "c \<noteq> CHR ''C''" by blast
    with False show ?thesis by (subst str_nat.simps) simp
  qed
qed

lemma startswith_C: "startswith s ''C'' \<longleftrightarrow> (\<exists>r. s = CHR ''C'' # r)"
  by (cases s) (auto simp: startswith_def)

lemma str_int_not_C: "\<not> startswith (str_int i) ''C''"
proof -
  obtain c r where "str_nat (nat i) = c # r" "c \<noteq> CHR ''C''" using str_nat_head by blast
  then show ?thesis by (simp add: startswith_C str_int_def)
qed

lemma cancelled_iff: "startswith (astype_str v) ''C'' \<longleftrightarrow> (\<exists>r. v = InvoiceStr (CHR ''C'' # r))"
proof (cases v)
  case (InvoiceNum i)
  then show ?thesis using str_int_not_C [of i] by simp
next
  case (InvoiceStr s)
  then show ?thesis by (simp add: startswith_C)
qed

lemma preprocess_filter:
  "preprocess raw = filter (\<lambda>t. Customer_ID t \<noteq> None \<and> \<not> startswith (astype_str (Invoice t)) ''C'') raw"
  by (simp add: preprocess_def drop_cancelled_def dropna_Customer_ID_def conj_commute)

lemma series_max_eq: "series_max xs = (if xs = [] then None else Some (Max (set xs)))"
proof (cases xs)
  case Nil
  then show ?thesis by simp
next
  case (Cons a list)
  then show ?thesis using Max.set_eq_fold [of a list] by simp
qed

lemma series_min_eq: "series_min xs = (if xs = [] then None else Some (Min (set xs)))"
proof (cases xs)
  case Nil
  then show ?thesis by simp
next
  case (Cons a list)
  then show ?thesis using Min.set_eq_fold [of a list] by simp
qed

lemma set_group_keys: "set (group_keys data) = {c. \<exists>t \<in> set data. Customer_ID t = Some c}"
  by (force simp: group_keys_def List.map_filter_def)

lemma distinct_group_keys: "distinct (group_keys data)"
  by (simp add: group_keys_def)

lemma sorted_group_keys: "sorted (group_keys data)"
  by (simp add: group_keys_def)

lemma customer_rows_nonempty: "c \<in> set (group_keys data) \<Longrightarrow> customer_rows c data \<noteq> []"
  by (auto simp: set_group_keys customer_rows_def filter_empty_conv)

lemma filter_key_map:
  "distinct ks \<Longrightarrow> k \<in> set ks \<Longrightarrow>
   filter (\<lambda>(c, d). c = k) (map (\<lambda>c. (c, g c)) ks) = [(k, g k)]"
  by (induction ks) (auto simp: filter_empty_conv)

lemma merge_over_keys:
  assumes "distinct ks" and "\<And>c. agg_Customer_ID (f c) = c"
  shows "merge (map f ks) (map (\<lambda>c. (c, g c)) ks) = map (\<lambda>c. (f c, g c)) ks"
proof -
  have "\<And>k. k \<in> set ks \<Longrightarrow>
      map (\<lambda>(c, d). (f k, d)) (filter (\<lambda>(c, d). c = agg_Customer_ID (f k)) (map (\<lambda>c. (c, g c)) ks)) = [(f k, g k)]"
    using assms by (simp add: filter_key_map)
  then have eq: "map (\<lambda>a. map (\<lambda>(c, d). (a, d)) (filter (\<lambda>(c, d). c = agg_Customer_ID a) (map (\<lambda>c. (c, g c)) ks))) (map f ks)
      = map (\<lambda>k. [(f k, g k)]) ks"
    by (simp add: comp_def)
  show ?thesis
    unfolding merge_def eq by (simp add: concat_map_singleton)
qed


lemma set_dates: "set (dates rows) = {d. \<exists>t \<in> set rows. InvoiceDate t = Some d}"
  by (force simp: dates_def List.map_filter_def)

lemma collect_all:
  "(\<forall>c \<in> set ks. P c) \<Longrightarrow>
   collect (map (\<lambda>c. if P c then Inr (a c) else Inl (e c)) ks) = Inr (map a ks)"
  by (induction ks) simp_all

lemma collect_some_elem:
  "k \<in> set ks \<Longrightarrow> \<not> P k \<Longrightarrow>
   \<exists>x. collect (map (\<lambda>c. if P c then Inr (a c) else Inl (e c)) ks) = Inl x"
proof (induction ks)
  case Nil
  then show ?case by simp
next
  case (Cons c ks)
  show ?case
  proof (cases "P c")
    case False
    then show ?thesis by simp
  next
    case True
    with Cons.prems have "k \<in> set ks" by auto
    with Cons have "\<exists>x. collect (map (\<lambda>c. if P c then Inr (a c) else Inl (e c)) ks) = Inl x"
      by blast
    with True show ?thesis by auto
  qed
qed

lemma collect_some:
  "\<not> (\<forall>c \<in> set ks. P c) \<Longrightarrow>
   \<exists>x. collect (map (\<lambda>c. if P c then Inr (a c) else Inl (e c)) ks) = Inl x"
  using collect_some_elem [of _ ks P a e] by blast

lemma map2_same: "map2 f (map h xs) (map k xs) = map (\<lambda>x. f (h x) (k x)) xs"
  by (induction xs) simp_all

lemma rfm_aggregate_if:
  "rfm_aggregate data =
     collect (map (\<lambda>c. if diff_fits (latest_date data) (series_max (dates (customer_rows c data)))
                       then Inr \<lparr> agg_Customer_ID = c,
                                  agg_Recency = days (time_diff (latest_date data)
                                                   (series_max (dates (customer_rows c data)))),
                                  agg_Frequency = nunique (map Invoice (customer_rows c data)),
                                  agg_Monetary = sum_list (map TotalPrice (customer_rows c data)) \<rparr>
                       else Inl OutOfBoundsDatetime)
                (group_keys data))"
  unfolding rfm_aggregate_def groupby_Customer_ID_def timestamp_sub_def
  by (simp add: comp_def) (intro arg_cong [where f = collect] map_cong, simp_all)

text \<open>The table, when every difference the cell takes fits, and no table otherwise.\<close>

lemma rfm_returns:
  assumes "\<forall>c \<in> set (group_keys (preprocess raw)).
             diff_fits (latest_date (preprocess raw)) (series_max (dates (customer_rows c (preprocess raw)))) \<and>
             diff_fits (latest_date (preprocess raw)) (series_min (dates (customer_rows c (preprocess raw))))"
  shows "rfm raw =
     Inr (map (\<lambda>c. \<lparr> rfm_Customer_ID = c,
                Recency = days (time_diff (latest_date (preprocess raw))
                            (series_max (dates (customer_rows c (preprocess raw))))),
                Frequency = nunique (map Invoice (customer_rows c (preprocess raw))),
                Monetary = sum_list (map TotalPrice (customer_rows c (preprocess raw))),
                FirstPurchaseDate = series_min (dates (customer_rows c (preprocess raw))),
                Tenure = days (time_diff (latest_date (preprocess raw))
                            (series_min (dates (customer_rows c (preprocess raw))))) \<rparr>)
         (group_keys (preprocess raw)))"
proof -
  define data where "data = preprocess raw"
  define f where "f = (\<lambda>c. \<lparr> agg_Customer_ID = c,
              agg_Recency = days (time_diff (latest_date data) (series_max (dates (customer_rows c data)))),
              agg_Frequency = nunique (map Invoice (customer_rows c data)),
              agg_Monetary = sum_list (map TotalPrice (customer_rows c data)) \<rparr>)"
  define g where "g = (\<lambda>c. series_min (dates (customer_rows c data)))"
  from assms have fits: "\<forall>c \<in> set (group_keys data). diff_fits (latest_date data) (series_max (dates (customer_rows c data)))"
    and fits': "\<forall>c \<in> set (group_keys data). diff_fits (latest_date data) (g c)"
    by (simp_all add: data_def g_def)
  have agg: "rfm_aggregate data = Inr (map f (group_keys data))"
    unfolding rfm_aggregate_if f_def using fits by (rule collect_all)
  have fst: "customer_first_purchase data = map (\<lambda>c. (c, g c)) (group_keys data)"
    by (simp add: customer_first_purchase_def groupby_Customer_ID_def g_def comp_def)
  have mrg: "merge (map f (group_keys data)) (customer_first_purchase data) = map (\<lambda>c. (f c, g c)) (group_keys data)"
    unfolding fst by (rule merge_over_keys) (simp_all add: distinct_group_keys f_def)
  have sub: "timestamp_sub_series (latest_date data) (map g (group_keys data))
      = Inr (map (\<lambda>c. time_diff (latest_date data) (g c)) (group_keys data))"
    using fits' by (simp add: timestamp_sub_series_def list_all_iff comp_def)
  have "rfm raw = Inr (map2 with_Tenure (map (\<lambda>c. (f c, g c)) (group_keys data))
                         (map (\<lambda>c. days (time_diff (latest_date data) (g c))) (group_keys data)))"
    by (simp add: rfm_def Let_def data_def [symmetric] agg mrg comp_def sub)
  then show ?thesis
    unfolding map2_same by (simp add: data_def [symmetric] with_Tenure_def f_def g_def)
qed

lemma rfm_raises:
  assumes "\<not> (\<forall>c \<in> set (group_keys (preprocess raw)).
             diff_fits (latest_date (preprocess raw)) (series_max (dates (customer_rows c (preprocess raw)))) \<and>
             diff_fits (latest_date (preprocess raw)) (series_min (dates (customer_rows c (preprocess raw)))))"
  shows "\<exists>e. rfm raw = Inl e"
proof -
  define data where "data = preprocess raw"
  define g where "g = (\<lambda>c. series_min (dates (customer_rows c data)))"
  show ?thesis
  proof (cases "\<forall>c \<in> set (group_keys data). diff_fits (latest_date data) (series_max (dates (customer_rows c data)))")
    case False
    then have "\<exists>x. rfm_aggregate data = Inl x"
      unfolding rfm_aggregate_if by (rule collect_some)
    then show ?thesis
      by (auto simp: rfm_def Let_def data_def [symmetric])
  next
    case True
    with assms have no: "\<not> (\<forall>c \<in> set (group_keys data). diff_fits (latest_date data) (g c))"
      by (auto simp: data_def g_def)
    define f where "f = (\<lambda>c. \<lparr> agg_Customer_ID = c,
              agg_Recency = days (time_diff (latest_date data) (series_max (dates (customer_rows c data)))),
              agg_Frequency = nunique (map Invoice (customer_rows c data)),
              agg_Monetary = sum_list (map TotalPrice (customer_rows c data)) \<rparr>)"
    have agg: "rfm_aggregate data = Inr (map f (group_keys data))"
      unfolding rfm_aggregate_if f_def using True by (rule collect_all)
    have fst: "customer_first_purchase data = map (\<lambda>c. (c, g c)) (group_keys data)"
      by (simp add: customer_first_purchase_def groupby_Customer_ID_def g_def comp_def)
    have mrg: "merge (map f (group_keys data)) (customer_first_purchase data) = map (\<lambda>c. (f c, g c)) (group_keys data)"
      unfolding fst by (rule merge_over_keys) (simp_all add: distinct_group_keys f_def)
    have sub: "timestamp_sub_series (latest_date data) (map g (group_keys data)) = Inl OverflowError"
      using no by (simp add: timestamp_sub_series_def list_all_iff)
    show ?thesis
      by (simp add: rfm_def Let_def data_def [symmetric] agg mrg comp_def sub)
  qed
qed

lemma rfm_table:
  assumes "rfm raw = Inr table"
  shows "map rfm_Customer_ID table = group_keys (preprocess raw)"
    and "\<forall>r \<in> set table.
           Recency r = days (time_diff (latest_date (preprocess raw))
             (series_max (dates (customer_rows (rfm_Customer_ID r) (preprocess raw))))) \<and>
           Frequency r = nunique (map Invoice (customer_rows (rfm_Customer_ID r) (preprocess raw))) \<and>
           Monetary r = sum_list (map TotalPrice (customer_rows (rfm_Customer_ID r) (preprocess raw))) \<and>
           FirstPurchaseDate r = series_min (dates (customer_rows (rfm_Customer_ID r) (preprocess raw))) \<and>
           Tenure r = days (time_diff (latest_date (preprocess raw)) (FirstPurchaseDate r)) \<and>
           diff_fits (latest_date (preprocess raw))
             (series_max (dates (customer_rows (rfm_Customer_ID r) (preprocess raw)))) \<and>
           diff_fits (latest_date (preprocess raw)) (FirstPurchaseDate r)"
proof -
  have fits: "\<forall>c \<in> set (group_keys (preprocess raw)).
             diff_fits (latest_date (preprocess raw)) (series_max (dates (customer_rows c (preprocess raw)))) \<and>
             diff_fits (latest_date (preprocess raw)) (series_min (dates (customer_rows c (preprocess raw))))"
    using rfm_raises [of raw] assms by auto
  note eq = rfm_returns [OF fits, unfolded assms]
  from eq show "map rfm_Customer_ID table = group_keys (preprocess raw)"
    by (simp add: comp_def)
  from eq fits show "\<forall>r \<in> set table.
           Recency r = days (time_diff (latest_date (preprocess raw))
             (series_max (dates (customer_rows (rfm_Customer_ID r) (preprocess raw))))) \<and>
           Frequency r = nunique (map Invoice (customer_rows (rfm_Customer_ID r) (preprocess raw))) \<and>
           Monetary r = sum_list (map TotalPrice (customer_rows (rfm_Customer_ID r) (preprocess raw))) \<and>
           FirstPurchaseDate r = series_min (dates (customer_rows (rfm_Customer_ID r) (preprocess raw))) \<and>
           Tenure r = days (time_diff (latest_date (preprocess raw)) (FirstPurchaseDate r)) \<and>
           diff_fits (latest_date (preprocess raw))
             (series_max (dates (customer_rows (rfm_Customer_ID r) (preprocess raw)))) \<and>
           diff_fits (latest_date (preprocess raw)) (FirstPurchaseDate r)"
    by auto
qed

lemma set_customer_rows_preprocess:
  "set (customer_rows c (preprocess raw)) =
     {t \<in> set raw. Customer_ID t = Some c \<and> \<not> startswith (astype_str (Invoice t)) ''C''}"
  by (auto simp: customer_rows_def preprocess_filter)


lemma customer_rows_subset: "set (customer_rows c data) \<subseteq> set data"
  by (auto simp: customer_rows_def)

lemma dates_customer_rows_subset: "set (dates (customer_rows c data)) \<subseteq> set (dates data)"
  using customer_rows_subset [of c data] by (auto simp: set_dates)

lemma latest_date_eq:
  "dates data \<noteq> [] \<Longrightarrow> latest_date data = Some (Max (set (dates data)))"
  by (simp add: latest_date_def series_max_eq)


lemma days_zero_iff: "0 \<le> d \<Longrightarrow> d div ns_per_day = 0 \<longleftrightarrow> d < ns_per_day"
  by (auto simp: ns_per_day_def div_pos_pos_trivial)




lemma rfm_row_dates:
  assumes "rfm raw = Inr table" and "r \<in> set table"
    and "dates (customer_rows (rfm_Customer_ID r) (preprocess raw)) \<noteq> []"
  defines "ds \<equiv> set (dates (customer_rows (rfm_Customer_ID r) (preprocess raw)))"
  shows "latest_date (preprocess raw) = Some (Max (set (dates (preprocess raw))))"
    and "Recency r = Some ((Max (set (dates (preprocess raw))) - Max ds) div ns_per_day)"
    and "FirstPurchaseDate r = Some (Min ds)"
    and "Tenure r = Some ((Max (set (dates (preprocess raw))) - Min ds) div ns_per_day)"
    and "Min ds \<le> Max ds"
    and "Max ds \<le> Max (set (dates (preprocess raw)))"
proof -
  note f = rfm_table(2) [OF assms(1), rule_format, OF assms(2)]
  have sub: "ds \<subseteq> set (dates (preprocess raw))"
    unfolding ds_def by (rule dates_customer_rows_subset)
  have ne: "ds \<noteq> {}" and fin: "finite ds"
    using assms(3) by (simp_all add: ds_def)
  with sub have "dates (preprocess raw) \<noteq> []" by auto
  then show ld: "latest_date (preprocess raw) = Some (Max (set (dates (preprocess raw))))"
    by (rule latest_date_eq)
  show "Recency r = Some ((Max (set (dates (preprocess raw))) - Max ds) div ns_per_day)"
    using f assms(3) ld by (simp add: ds_def series_max_eq days_def)
  show fp: "FirstPurchaseDate r = Some (Min ds)"
    using f assms(3) by (simp add: ds_def series_min_eq)
  show "Tenure r = Some ((Max (set (dates (preprocess raw))) - Min ds) div ns_per_day)"
    using f fp ld by (simp add: days_def)
  show "Min ds \<le> Max ds"
    using ne fin by (simp add: Min_le_iff)
  show "Max ds \<le> Max (set (dates (preprocess raw)))"
    using ne sub by (intro Max_mono) auto
qed

lemmas rfm_eval =
  rfm_def preprocess_def dropna_Customer_ID_def drop_cancelled_def startswith_def
  str_int_def str_nat.simps digit_char_def rfm_aggregate_def customer_first_purchase_def merge_def
  groupby_Customer_ID_def group_keys_def customer_rows_def nunique_def with_Tenure_def List.map_filter_def
  latest_date_def dates_def days_def ns_per_day_def TotalPrice_def
  timestamp_sub_def timestamp_sub_series_def fits_timedelta_def timedelta_max_def timestamps_fit_def

lemma rfm_scenario1:
  "rfm scenario1 = Inr
    [ \<lparr>rfm_Customer_ID = 12345, Recency = Some 0, Frequency = 1, Monetary = 2,
        FirstPurchaseDate = Some (5 * ns_per_day + 7), Tenure = Some 0\<rparr>,
      \<lparr>rfm_Customer_ID = 13085, Recency = Some 1, Frequency = 3, Monetary = 507 / 5,
        FirstPurchaseDate = Some 0, Tenure = Some 5\<rparr> ]"
  by (simp add: scenario1_def rfm_eval)



lemma rfm_single_purchase_sheet:
  "rfm single_purchase_sheet = Inr
    [ \<lparr>rfm_Customer_ID = 13047, Recency = Some 0, Frequency = 1, Monetary = 2,
        FirstPurchaseDate = Some (10 * ns_per_day), Tenure = Some 0\<rparr>,
      \<lparr>rfm_Customer_ID = 17850, Recency = Some 10, Frequency = 1, Monetary = 153 / 10,
        FirstPurchaseDate = Some 0, Tenure = Some 10\<rparr> ]"
  by (simp add: single_purchase_sheet_def rfm_eval)


text \<open>The exceptions, and the empty cells of the table.\<close>

lemma rfm_far_sheet: "rfm far_sheet = Inl OutOfBoundsDatetime"
  by (simp add: far_sheet_def rfm_eval)

lemma rfm_far_customer_sheet: "rfm far_customer_sheet = Inl OverflowError"
  by (simp add: far_customer_sheet_def rfm_eval)

lemma rfm_undated_sheet:
  "rfm undated_sheet = Inr
    [ \<lparr>rfm_Customer_ID = 1, Recency = None, Frequency = 1, Monetary = 1,
        FirstPurchaseDate = None, Tenure = None\<rparr>,
      \<lparr>rfm_Customer_ID = 2, Recency = Some 0, Frequency = 1, Monetary = 1,
        FirstPurchaseDate = Some 0, Tenure = Some 0\<rparr> ]"
  by (simp add: undated_sheet_def rfm_eval)

lemma groups_partition:
  "distinct ks \<Longrightarrow>
   mset (concat (map (\<lambda>c. filter (\<lambda>t. Customer_ID t = Some c) xs) ks)) =
   mset (filter (\<lambda>t. \<exists>c \<in> set ks. Customer_ID t = Some c) xs)"
proof (induction ks)
  case Nil
  then show ?case by simp
next
  case (Cons k ks)
  have "mset (filter (\<lambda>t. Customer_ID t = Some k) xs) + mset (filter (\<lambda>t. \<exists>c \<in> set ks. Customer_ID t = Some c) xs)
      = mset (filter (\<lambda>t. \<exists>c \<in> set (k # ks). Customer_ID t = Some c) xs)"
    using Cons.prems by (induction xs) auto
  with Cons show ?case by simp
qed

lemma groupby_partition:
  assumes "\<And>t. t \<in> set data \<Longrightarrow> Customer_ID t \<noteq> None"
  shows "mset (concat (map snd (groupby_Customer_ID data))) = mset data"
proof -
  have "filter (\<lambda>t. \<exists>c \<in> set (group_keys data). Customer_ID t = Some c) data = data"
    using assms by (fastforce simp: set_group_keys filter_id_conv)
  then show ?thesis
    using groups_partition [OF distinct_group_keys, of data data]
    by (simp add: groupby_Customer_ID_def customer_rows_def comp_def)
qed

lemma preprocess_idem: "preprocess (preprocess raw) = preprocess raw"
  by (simp add: preprocess_filter)


text \<open>
  C1. When the cell returns a table, it has one row per customer with a row left after
  the filter, and the frequency of a customer is the number of distinct invoice ids on
  the customer's rows, however many rows carry each invoice.
\<close>

theorem rfm_frequency_distinct_invoices:
  assumes "rfm raw = Inr table"
  shows "distinct (map rfm_Customer_ID table) \<and>
   rfm_Customer_ID ` set table = {c. \<exists>t \<in> set (preprocess raw). Customer_ID t = Some c} \<and>
   (\<forall>r \<in> set table.
      Frequency r = card (Invoice ` set (customer_rows (rfm_Customer_ID r) (preprocess raw))))"
proof (intro conjI ballI)
  note keys = rfm_table(1) [OF assms]
  show "distinct (map rfm_Customer_ID table)"
    by (simp add: keys distinct_group_keys)
  have "rfm_Customer_ID ` set table = set (map rfm_Customer_ID table)" by simp
  then show "rfm_Customer_ID ` set table = {c. \<exists>t \<in> set (preprocess raw). Customer_ID t = Some c}"
    by (simp only: keys set_group_keys)
next
  fix r assume "r \<in> set table"
  with rfm_table(2) [OF assms]
  have "Frequency r = nunique (map Invoice (customer_rows (rfm_Customer_ID r) (preprocess raw)))"
    by blast
  then show "Frequency r = card (Invoice ` set (customer_rows (rfm_Customer_ID r) (preprocess raw)))"
    by (simp add: nunique_def length_remdups_card_conv)
qed

theorem rfm_frequency_distinct_invoices_witness:
  "(\<exists>table. rfm scenario1 = Inr table) \<and>
   card (Invoice ` set (customer_rows 13085 (preprocess scenario1))) = 3 \<and>
   length (customer_rows 13085 (preprocess scenario1)) = 5"
proof -
  define table where "table = [ \<lparr>rfm_Customer_ID = 12345, Recency = Some 0, Frequency = 1, Monetary = 2,
        FirstPurchaseDate = Some (5 * ns_per_day + 7), Tenure = Some 0\<rparr>,
      \<lparr>rfm_Customer_ID = 13085, Recency = Some 1, Frequency = 3, Monetary = 507 / 5,
        FirstPurchaseDate = Some 0, Tenure = Some 5\<rparr> ]"
  have t: "rfm scenario1 = Inr table"
    by (simp only: rfm_scenario1 table_def)
  define r where "r = table ! 1"
  have r: "r \<in> set table" "rfm_Customer_ID r = 13085" "Frequency r = 3"
    by (simp_all add: r_def table_def)
  from rfm_frequency_distinct_invoices [OF t] r(1)
  have "Frequency r = card (Invoice ` set (customer_rows (rfm_Customer_ID r) (preprocess scenario1)))"
    by blast
  with r have "card (Invoice ` set (customer_rows 13085 (preprocess scenario1))) = 3" by simp
  moreover have "length (customer_rows 13085 (preprocess scenario1)) = 5"
    by (simp add: scenario1_def rfm_eval)
  ultimately show ?thesis using t by simp
qed

text \<open>
  C2. The rows that reach the aggregation are the rows of the sheet, in order and
  unchanged, except those without a customer id and those whose invoice id is a text
  starting with the cancellation marker \<open>C\<close> (a numeric invoice id never carries
  it). Every row that is left lies in exactly one customer group, and the result of
  the cell is the one computed from the remaining rows alone.
\<close>

theorem preprocess_excludes_exactly:
  "preprocess raw =
     filter (\<lambda>t. \<not> (Customer_ID t = None \<or> (\<exists>s. Invoice t = InvoiceStr (CHR ''C'' # s)))) raw \<and>
   mset (concat (map snd (groupby_Customer_ID (preprocess raw)))) = mset (preprocess raw) \<and>
   rfm (preprocess raw) = rfm raw"
proof (intro conjI)
  show "preprocess raw =
     filter (\<lambda>t. \<not> (Customer_ID t = None \<or> (\<exists>s. Invoice t = InvoiceStr (CHR ''C'' # s)))) raw"
    by (simp add: preprocess_filter cancelled_iff)
  show "mset (concat (map snd (groupby_Customer_ID (preprocess raw)))) = mset (preprocess raw)"
    by (rule groupby_partition) (auto simp: preprocess_filter)
  show "rfm (preprocess raw) = rfm raw"
    by (simp add: rfm_def preprocess_idem)
qed



lemma Max_dates:
  assumes "dates rows \<noteq> []"
  shows "(\<exists>t \<in> set rows. InvoiceDate t = Some (Max (set (dates rows)))) \<and>
         (\<forall>t \<in> set rows. \<forall>d. InvoiceDate t = Some d \<longrightarrow> d \<le> Max (set (dates rows)))"
proof
  from assms have "Max (set (dates rows)) \<in> set (dates rows)"
    by (intro Max_in) auto
  then show "\<exists>t \<in> set rows. InvoiceDate t = Some (Max (set (dates rows)))"
    by (auto simp: set_dates)
  show "\<forall>t \<in> set rows. \<forall>d. InvoiceDate t = Some d \<longrightarrow> d \<le> Max (set (dates rows))"
  proof (intro ballI allI impI)
    fix t d assume "t \<in> set rows" "InvoiceDate t = Some d"
    then have "d \<in> set (dates rows)" by (auto simp: set_dates)
    then show "d \<le> Max (set (dates rows))" by simp
  qed
qed


text \<open>
  C4, as stated, fails: the tenure is counted from the first purchase to the latest
  timestamp of the whole sheet, not to the customer's own last purchase. Customer
  17850 below has a single purchase, ten days before the latest one of the sheet,
  and gets tenure 10.
\<close>

theorem single_transaction_tenure_counterexample:
  "customer_rows 17850 (preprocess single_purchase_sheet) = [single_purchase_sheet ! 0] \<and>
   rfm single_purchase_sheet = Inr
    [ \<lparr>rfm_Customer_ID = 13047, Recency = Some 0, Frequency = 1, Monetary = 2,
        FirstPurchaseDate = Some (10 * ns_per_day), Tenure = Some 0\<rparr>,
      \<lparr>rfm_Customer_ID = 17850, Recency = Some 10, Frequency = 1, Monetary = 153 / 10,
        FirstPurchaseDate = Some 0, Tenure = Some 10\<rparr> ]"
  by (simp add: rfm_single_purchase_sheet) (simp add: single_purchase_sheet_def rfm_eval)

text \<open>
  C4, amended. When the cell returns a table, a customer with exactly one kept row,
  which has a timestamp, gets a tenure equal to the recency: the whole days from that
  purchase to the latest timestamp of the kept rows. It is 0 exactly when the purchase
  is less than one day before that timestamp.
\<close>

theorem single_transaction_tenure:
  assumes "rfm raw = Inr table" and "r \<in> set table"
    and "customer_rows (rfm_Customer_ID r) (preprocess raw) = [t]"
    and "InvoiceDate t = Some d"
  shows "\<exists>latest.
           (\<exists>t' \<in> set (preprocess raw). InvoiceDate t' = Some latest) \<and>
           (\<forall>t' \<in> set (preprocess raw). \<forall>d'. InvoiceDate t' = Some d' \<longrightarrow> d' \<le> latest) \<and>
           d \<le> latest \<and> latest - d \<le> timedelta_max \<and>
           Tenure r = Some ((latest - d) div ns_per_day) \<and>
           Recency r = Tenure r \<and>
           (Tenure r = Some 0 \<longleftrightarrow> latest - d < ns_per_day)"
proof -
  have ds: "dates (customer_rows (rfm_Customer_ID r) (preprocess raw)) = [d]"
    by (simp add: assms(3,4) dates_def List.map_filter_def)
  then have ne: "dates (customer_rows (rfm_Customer_ID r) (preprocess raw)) \<noteq> []"
    by simp
  note rd = rfm_row_dates [OF assms(1,2) ne]
  define latest where "latest = Max (set (dates (preprocess raw)))"
  have "d \<in> set (dates (preprocess raw))"
    using dates_customer_rows_subset [of "rfm_Customer_ID r" "preprocess raw"] by (simp add: ds)
  then have dne: "dates (preprocess raw) \<noteq> []" by auto
  have le: "d \<le> latest"
    using rd(6) by (simp add: ds latest_def)
  have ten: "Tenure r = Some ((latest - d) div ns_per_day)"
    using rd(4) by (simp add: ds latest_def)
  have rec: "Recency r = Some ((latest - d) div ns_per_day)"
    using rd(2) by (simp add: ds latest_def)
  have "diff_fits (latest_date (preprocess raw)) (FirstPurchaseDate r)"
    using rfm_table(2) [OF assms(1)] assms(2) by blast
  then have fit: "latest - d \<le> timedelta_max"
    using rd(1,3) by (simp add: ds latest_def fits_timedelta_def)
  have "Tenure r = Some 0 \<longleftrightarrow> latest - d < ns_per_day"
    using le by (simp add: ten days_zero_iff)
  with Max_dates [OF dne] le fit ten rec show ?thesis
    unfolding latest_def [symmetric] by auto
qed

theorem single_transaction_tenure_witness:
  "\<exists>table. rfm single_purchase_sheet = Inr table \<and>
     (\<exists>latest.
        (\<exists>t' \<in> set (preprocess single_purchase_sheet). InvoiceDate t' = Some latest) \<and>
        (\<forall>t' \<in> set (preprocess single_purchase_sheet). \<forall>d'. InvoiceDate t' = Some d' \<longrightarrow> d' \<le> latest) \<and>
        0 \<le> latest \<and> latest - 0 \<le> timedelta_max \<and>
        Tenure (table ! 1) = Some ((latest - 0) div ns_per_day) \<and>
        Recency (table ! 1) = Tenure (table ! 1) \<and>
        (Tenure (table ! 1) = Some 0 \<longleftrightarrow> latest - 0 < ns_per_day))"
proof -
  define table where "table =
    [ \<lparr>rfm_Customer_ID = 13047, Recency = Some 0, Frequency = 1, Monetary = 2,
        FirstPurchaseDate = Some (10 * ns_per_day), Tenure = Some 0\<rparr>,
      \<lparr>rfm_Customer_ID = 17850, Recency = Some 10, Frequency = 1, Monetary = 153 / 10,
        FirstPurchaseDate = Some 0, Tenure = Some 10\<rparr> ]"
  have t: "rfm single_purchase_sheet = Inr table"
    by (simp only: rfm_single_purchase_sheet table_def)
  have r: "table ! 1 \<in> set table"
    by (simp add: table_def)
  have rows: "customer_rows (rfm_Customer_ID (table ! 1)) (preprocess single_purchase_sheet)
      = [single_purchase_sheet ! 0]"
    by (simp add: table_def) (simp add: single_purchase_sheet_def rfm_eval)
  have d: "InvoiceDate (single_purchase_sheet ! 0) = Some 0"
    by (simp add: single_purchase_sheet_def)
  from single_transaction_tenure [OF t r rows d] t show ?thesis
    by blast
qed




section \<open>The synthetic churn data generator\<close>

text \<open>
  \<^verbatim>\<open>
  def generate_data(num_samples=1000):
      np.random.seed(42)
      tenure = np.random.randint(1, 72, size=num_samples)
      monthly_charges = np.round(np.random.uniform(20, 100, size=num_samples), 2)
      total_charges = np.round(tenure * monthly_charges * np.random.uniform(0.8, 1.2), 2)
      contract = np.random.choice(['Month-to-month', 'One year', 'Two year'], size=num_samples)
      internet_service = np.random.choice(['DSL', 'Fiber optic', 'No'], size=num_samples)
      online_security = np.random.choice(['Yes', 'No', 'No internet service'], size=num_samples)
      churn_prob = (0.1 + 0.3 * (contract == 'Month-to-month')
                        + 0.2 * (internet_service == 'Fiber optic')
                        + 0.15 * (online_security == 'No')
                        + 0.001 * (monthly_charges - 50))
      churn = np.random.binomial(1, np.clip(churn_prob, 0, 0.9))
      data = pd.DataFrame({...})
      return data
  \<close>

  The function reads and writes the global generator of \<open>np.random\<close>. Its state is
  threaded through the model: every draw takes the state and returns the next one.
  The generator itself belongs to numpy, so its operations are a parameter \<open>R\<close> of
  the model, one field per function the source calls. Arrays are lists, a data frame
  is the record of its columns, and floating-point numbers are real numbers: the
  rounding of the floating-point operations is not part of the model.
\<close>

record 'g np_random =
  random_seed :: "nat \<Rightarrow> 'g \<Rightarrow> 'g"
  random_randint :: "int \<Rightarrow> int \<Rightarrow> nat \<Rightarrow> 'g \<Rightarrow> int list \<times> 'g"
  random_uniform :: "real \<Rightarrow> real \<Rightarrow> nat \<Rightarrow> 'g \<Rightarrow> real list \<times> 'g"
  random_uniform_scalar :: "real \<Rightarrow> real \<Rightarrow> 'g \<Rightarrow> real \<times> 'g"
  random_choice :: "string list \<Rightarrow> nat \<Rightarrow> 'g \<Rightarrow> string list \<times> 'g"
  random_binomial :: "nat \<Rightarrow> real list \<Rightarrow> 'g \<Rightarrow> nat list \<times> 'g"

text \<open>
  What the documentation of numpy says of two of these functions: \<open>seed\<close>
  re-initialises the generator, so the state after it depends on the seed only; and
  \<open>uniform(low, high)\<close> draws from the interval between \<open>low\<close> and \<open>high\<close>.
\<close>

definition seed_resets :: "'g np_random \<Rightarrow> bool" where
  "seed_resets R \<longleftrightarrow> (\<forall>s g g'. random_seed R s g = random_seed R s g')"

definition uniform_in_range :: "'g np_random \<Rightarrow> bool" where
  "uniform_in_range R \<longleftrightarrow>
     (\<forall>low high g. low \<le> high \<longrightarrow>
        low \<le> fst (random_uniform_scalar R low high g) \<and> fst (random_uniform_scalar R low high g) \<le> high)"

text \<open>
  \<open>np.round(x, decimals)\<close> scales by a power of ten, rounds to the nearest integer
  with ties to the even one (\<open>rint\<close>), and scales back; \<open>np.clip\<close> is
  \<open>minimum(maximum(a, a_min), a_max)\<close>.
\<close>

definition rint :: "real \<Rightarrow> int" where
  "rint x =
     (let f = \<lfloor>x\<rfloor>; r = x - of_int f
      in if r < 1 / 2 then f else if 1 / 2 < r then f + 1 else if even f then f else f + 1)"

definition np_round :: "real \<Rightarrow> nat \<Rightarrow> real" where
  "np_round x decimals = of_int (rint (x * 10 ^ decimals)) / 10 ^ decimals"

definition np_clip :: "real \<Rightarrow> real \<Rightarrow> real \<Rightarrow> real" where
  "np_clip a a_min a_max = min (max a a_min) a_max"

text \<open>
  The churn probability of one row, and of the columns element by element. A
  comparison of an array with a string gives booleans, which count as 0 and 1 in the
  products.
\<close>

definition churn_prob_at :: "string \<Rightarrow> string \<Rightarrow> string \<Rightarrow> real \<Rightarrow> real" where
  "churn_prob_at c i s m =
     1 / 10 +
     3 / 10 * of_bool (c = ''Month-to-month'') +
     2 / 10 * of_bool (i = ''Fiber optic'') +
     15 / 100 * of_bool (s = ''No'') +
     1 / 1000 * (m - 50)"

definition churn_prob :: "string list \<Rightarrow> string list \<Rightarrow> string list \<Rightarrow> real list \<Rightarrow> real list" where
  "churn_prob contract internet_service online_security monthly_charges =
     map (\<lambda>(c, i, s, m). churn_prob_at c i s m)
       (zip contract (zip internet_service (zip online_security monthly_charges)))"

record churn_data =
  tenure :: "int list"
  monthly_charges :: "real list"
  total_charges :: "real list"
  contract :: "string list"
  internet_service :: "string list"
  online_security :: "string list"
  churn :: "nat list"

text \<open>
  The body of \<open>generate_data\<close>, with the values of its local variables: besides the
  frame it returns, the factor drawn by the one call \<open>np.random.uniform(0.8, 1.2)\<close>,
  the array passed to \<open>np.random.binomial\<close>, and the generator state before and
  after that call.
\<close>

record 'g generate_locals =
  data :: churn_data
  jitter :: real
  clipped_prob :: "real list"
  binomial_state :: 'g
  final_state :: 'g

definition generate_data_locals :: "'g np_random \<Rightarrow> nat \<Rightarrow> 'g \<Rightarrow> 'g generate_locals" where
  "generate_data_locals R num_samples g =
     (let g0 = random_seed R 42 g;
          (tenure, g1) = random_randint R 1 72 num_samples g0;
          (drawn, g2) = random_uniform R 20 100 num_samples g1;
          monthly_charges = map (\<lambda>x. np_round x 2) drawn;
          (u, g3) = random_uniform_scalar R (8 / 10) (12 / 10) g2;
          total_charges = map2 (\<lambda>t m. np_round (of_int t * m * u) 2) tenure monthly_charges;
          (contract, g4) = random_choice R [''Month-to-month'', ''One year'', ''Two year''] num_samples g3;
          (internet_service, g5) = random_choice R [''DSL'', ''Fiber optic'', ''No''] num_samples g4;
          (online_security, g6) = random_choice R [''Yes'', ''No'', ''No internet service''] num_samples g5;
          p = map (\<lambda>x. np_clip x 0 (9 / 10)) (churn_prob contract internet_service online_security monthly_charges);
          (churn, g7) = random_binomial R 1 p g6
      in \<lparr> data = \<lparr> tenure = tenure, monthly_charges = monthly_charges, total_charges = total_charges,
                     contract = contract, internet_service = internet_service,
                     online_security = online_security, churn = churn \<rparr>,
           jitter = u, clipped_prob = p, binomial_state = g6, final_state = g7 \<rparr>)"

definition generate_data :: "'g np_random \<Rightarrow> nat \<Rightarrow> 'g \<Rightarrow> churn_data \<times> 'g" where
  "generate_data R num_samples g =
     (let l = generate_data_locals R num_samples g in (data l, final_state l))"

subsection \<open>A small generator to run the model\<close>

text \<open>
  A linear congruential generator on the states \<open>0, \<dots>, 999\<close> stands in for
  numpy's, to run \<open>generate_data\<close> on concrete numbers.
\<close>

definition toy_next :: "nat \<Rightarrow> nat" where
  "toy_next s = (21 * s + 7) mod 1000"

fun toy_draws :: "nat \<Rightarrow> nat \<Rightarrow> nat list \<times> nat" where
  "toy_draws 0 s = ([], s)"
| "toy_draws (Suc n) s = (let (xs, s') = toy_draws n (toy_next s) in (toy_next s # xs, s'))"

definition toy_pick :: "'a list \<Rightarrow> nat \<Rightarrow> 'a" where
  "toy_pick a x = a ! (x mod length a)"

definition toy_rng :: "nat np_random" where
  "toy_rng =
     \<lparr> random_seed = (\<lambda>s g. s),
       random_randint = (\<lambda>low high size s.
          let (xs, s') = toy_draws size s in (map (\<lambda>x. low + int x mod (high - low)) xs, s')),
       random_uniform = (\<lambda>low high size s.
          let (xs, s') = toy_draws size s in (map (\<lambda>x. low + (high - low) * (of_nat x / 1000)) xs, s')),
       random_uniform_scalar = (\<lambda>low high s. (low + (high - low) * (of_nat (toy_next s) / 1000), toy_next s)),
       random_choice = (\<lambda>a size s.
          let (xs, s') = toy_draws size s in (map (toy_pick a) xs, s')),
       random_binomial = (\<lambda>n p s.
          let (xs, s') = toy_draws (length p) s
          in (map2 (\<lambda>x q. if of_nat x / 1000 < q then n else 0) xs p, s')) \<rparr>"

subsection \<open>Properties of the generator\<close>

lemma toy_pick_3: "toy_pick [a, b, c] x = [a, b, c] ! (x mod 3)"
  by (simp add: toy_pick_def)

lemma toy_draws_3:
  "toy_draws 3 s =
     ([toy_next s, toy_next (toy_next s), toy_next (toy_next (toy_next s))],
      toy_next (toy_next (toy_next s)))"
  by (simp add: numeral_3_eq_3)

lemmas toy_eval = toy_rng_def toy_next_def toy_draws_3 toy_pick_3

lemma toy_locals:
  "generate_data_locals toy_rng 3 0 =
     \<lparr> data = \<lparr> tenure = [38, 38, 62],
                 monthly_charges = [208 / 5, 1854 / 25, 948 / 25],
                 total_charges = [85711 / 50, 305593 / 100, 254947 / 100],
                 contract = [''Two year'', ''Month-to-month'', ''Two year''],
                 internet_service = [''No'', ''DSL'', ''No''],
                 online_security = [''No'', ''Yes'', ''No''],
                 churn = [0, 0, 1] \<rparr>,
       jitter = 2711 / 2500,
       clipped_prob = [151 / 625, 2651 / 6250, 1487 / 6250],
       binomial_state = 394, final_state = 75 \<rparr>"
proof -
  have s0: "random_seed toy_rng 42 0 = 42"
    by (simp add: toy_eval)
  have s1: "random_randint toy_rng 1 72 3 42 = ([38, 38, 62], 203)"
    by (simp add: toy_eval)
  have s2: "random_uniform toy_rng 20 100 3 203 = ([208 / 5, 1854 / 25, 948 / 25], 224)"
    by (simp add: toy_eval)
  have r2: "map (\<lambda>x. np_round x 2) [208 / 5, 1854 / 25, 948 / 25] = [208 / 5, 1854 / 25, 948 / 25]"
    by (simp add: np_round_def rint_def Let_def)
  have s3: "random_uniform_scalar toy_rng (8 / 10) (12 / 10) 224 = (2711 / 2500, 711)"
    by (simp add: toy_eval)
  have r3: "map2 (\<lambda>t m. np_round (real_of_int t * m * (2711 / 2500)) 2) [38, 38, 62] [208 / 5, 1854 / 25, 948 / 25]
      = [85711 / 50, 305593 / 100, 254947 / 100]"
    by (simp add: np_round_def rint_def Let_def)
  have s4: "random_choice toy_rng [''Month-to-month'', ''One year'', ''Two year''] 3 711
      = ([''Two year'', ''Month-to-month'', ''Two year''], 812)"
    by (simp add: toy_eval)
  have s5: "random_choice toy_rng [''DSL'', ''Fiber optic'', ''No''] 3 812 = ([''No'', ''DSL'', ''No''], 173)"
    by (simp add: toy_eval)
  have s6: "random_choice toy_rng [''Yes'', ''No'', ''No internet service''] 3 173 = ([''No'', ''Yes'', ''No''], 394)"
    by (simp add: toy_eval)
  have r6: "map (\<lambda>x. np_clip x 0 (9 / 10))
        (churn_prob [''Two year'', ''Month-to-month'', ''Two year''] [''No'', ''DSL'', ''No'']
           [''No'', ''Yes'', ''No''] [208 / 5, 1854 / 25, 948 / 25])
      = [151 / 625, 2651 / 6250, 1487 / 6250]"
    by (simp add: churn_prob_def churn_prob_at_def np_clip_def)
  have s7: "random_binomial toy_rng 1 [151 / 625, 2651 / 6250, 1487 / 6250] 394 = ([0, 0, 1], 75)"
    by (simp add: toy_eval)
  show ?thesis
    unfolding generate_data_locals_def
    by (simp only: Let_def prod.case s0 s1 s2 r2 s3 r3 s4 s5 s6 r6 s7)
qed


lemma rint_error: "\<bar>of_int (rint y) - y\<bar> \<le> 1 / 2"
proof -
  have "of_int \<lfloor>y\<rfloor> \<le> y" "y < of_int \<lfloor>y\<rfloor> + 1" by linarith+
  then show ?thesis by (auto simp: rint_def Let_def)
qed

lemma np_round_error: "\<bar>np_round x 2 - x\<bar> \<le> 1 / 200"
proof -
  have "\<bar>of_int (rint (x * 100)) - x * 100\<bar> \<le> 1 / 2" by (rule rint_error)
  then show ?thesis by (simp add: np_round_def abs_le_iff field_simps)
qed

lemma np_clip_bounds: "lo \<le> hi \<Longrightarrow> lo \<le> np_clip a lo hi \<and> np_clip a lo hi \<le> hi"
  by (simp add: np_clip_def)

lemma generate_data_locals_seed:
  assumes "seed_resets R"
  shows "generate_data_locals R n g = generate_data_locals R n g'"
proof -
  have e: "random_seed R 42 g = random_seed R 42 g'"
    using assms unfolding seed_resets_def by blast
  show ?thesis
    unfolding generate_data_locals_def e ..
qed

lemma seed_resets_toy: "seed_resets toy_rng"
  by (simp add: seed_resets_def toy_rng_def)

lemma toy_next_less: "toy_next s < 1000"
  by (simp add: toy_next_def)

lemma uniform_in_range_toy: "uniform_in_range toy_rng"
proof -
  have "low \<le> low + (high - low) * (of_nat (toy_next s) / 1000) \<and>
        low + (high - low) * (of_nat (toy_next s) / 1000) \<le> high"
    if "low \<le> high" for low high :: real and s
  proof -
    define t :: real where "t = of_nat (toy_next s) / 1000"
    have "toy_next s \<le> 1000"
      using toy_next_less [of s] by simp
    then have "(of_nat (toy_next s) :: real) \<le> of_nat 1000"
      by (simp only: of_nat_le_iff)
    then have t: "0 \<le> t" "t \<le> 1"
      by (simp_all add: t_def)
    from that have d: "0 \<le> high - low" by simp
    from d t(1) have "0 \<le> (high - low) * t"
      by (rule mult_nonneg_nonneg)
    moreover from t(2) d have "(high - low) * t \<le> high - low"
      by (rule mult_left_le)
    ultimately show ?thesis
      unfolding t_def [symmetric] by linarith
  qed
  then show ?thesis
    by (simp add: uniform_in_range_def toy_rng_def)
qed

text \<open>
  C6. The labels are the result of \<open>binomial\<close> with one trial on the array of clipped
  probabilities, and each entry of that array is the linear combination
  \<open>0.1 + 0.3 [contract = Month-to-month] + 0.2 [internet_service = Fiber optic]
  + 0.15 [online_security = No] + 0.001 (monthly_charges - 50)\<close> of its row, clipped
  to \<open>[0, 0.9]\<close>; so each lies between 0 and 0.9.
\<close>

theorem churn_probability_clipped:
  "churn (data (generate_data_locals R n g)) =
     fst (random_binomial R 1 (clipped_prob (generate_data_locals R n g))
            (binomial_state (generate_data_locals R n g))) \<and>
   (\<forall>i < length (clipped_prob (generate_data_locals R n g)).
      clipped_prob (generate_data_locals R n g) ! i =
        np_clip (1 / 10
                 + 3 / 10 * of_bool (contract (data (generate_data_locals R n g)) ! i = ''Month-to-month'')
                 + 2 / 10 * of_bool (internet_service (data (generate_data_locals R n g)) ! i = ''Fiber optic'')
                 + 15 / 100 * of_bool (online_security (data (generate_data_locals R n g)) ! i = ''No'')
                 + 1 / 1000 * (monthly_charges (data (generate_data_locals R n g)) ! i - 50))
          0 (9 / 10) \<and>
      0 \<le> clipped_prob (generate_data_locals R n g) ! i \<and>
      clipped_prob (generate_data_locals R n g) ! i \<le> 9 / 10)"
proof (intro conjI allI impI)
  show "churn (data (generate_data_locals R n g)) =
     fst (random_binomial R 1 (clipped_prob (generate_data_locals R n g))
            (binomial_state (generate_data_locals R n g)))"
    by (simp add: generate_data_locals_def Let_def split_def)
next
  fix i assume i: "i < length (clipped_prob (generate_data_locals R n g))"
  then show eq: "clipped_prob (generate_data_locals R n g) ! i =
        np_clip (1 / 10
                 + 3 / 10 * of_bool (contract (data (generate_data_locals R n g)) ! i = ''Month-to-month'')
                 + 2 / 10 * of_bool (internet_service (data (generate_data_locals R n g)) ! i = ''Fiber optic'')
                 + 15 / 100 * of_bool (online_security (data (generate_data_locals R n g)) ! i = ''No'')
                 + 1 / 1000 * (monthly_charges (data (generate_data_locals R n g)) ! i - 50))
          0 (9 / 10)"
    by (simp add: generate_data_locals_def Let_def split_def churn_prob_def churn_prob_at_def)
  have b: "0 \<le> np_clip a 0 (9 / 10) \<and> np_clip a 0 (9 / 10) \<le> 9 / 10" for a
    by (rule np_clip_bounds) simp
  show "0 \<le> clipped_prob (generate_data_locals R n g) ! i"
    unfolding eq using b by blast
  show "clipped_prob (generate_data_locals R n g) ! i \<le> 9 / 10"
    unfolding eq using b by blast
qed

theorem churn_probability_clipped_witness:
  "clipped_prob (generate_data_locals toy_rng 3 0) ! 1 = np_clip (1 / 10 + 3 / 10 + 1 / 1000 * (1854 / 25 - 50)) 0 (9 / 10) \<and>
   0 \<le> clipped_prob (generate_data_locals toy_rng 3 0) ! 1 \<and>
   clipped_prob (generate_data_locals toy_rng 3 0) ! 1 \<le> 9 / 10"
proof -
  have "(1::nat) < length (clipped_prob (generate_data_locals toy_rng 3 0))"
    by (simp add: toy_locals)
  with churn_probability_clipped [of toy_rng 3 0]
  have "clipped_prob (generate_data_locals toy_rng 3 0) ! 1 =
        np_clip (1 / 10
                 + 3 / 10 * of_bool (contract (data (generate_data_locals toy_rng 3 0)) ! 1 = ''Month-to-month'')
                 + 2 / 10 * of_bool (internet_service (data (generate_data_locals toy_rng 3 0)) ! 1 = ''Fiber optic'')
                 + 15 / 100 * of_bool (online_security (data (generate_data_locals toy_rng 3 0)) ! 1 = ''No'')
                 + 1 / 1000 * (monthly_charges (data (generate_data_locals toy_rng 3 0)) ! 1 - 50))
          0 (9 / 10) \<and>
      0 \<le> clipped_prob (generate_data_locals toy_rng 3 0) ! 1 \<and>
      clipped_prob (generate_data_locals toy_rng 3 0) ! 1 \<le> 9 / 10"
    by blast
  then show ?thesis
    by (simp add: toy_locals)
qed

text \<open>
  C7. Two runs with the same sample count return the same frame, column by column and
  in the same order, whatever the state of the generator each run starts in.
\<close>

theorem generate_data_reproducible:
  assumes "seed_resets R"
  shows "fst (generate_data R n g) = fst (generate_data R n g')"
  using generate_data_locals_seed [OF assms, of n g g'] by (simp add: generate_data_def Let_def)

theorem generate_data_reproducible_witness:
  "seed_resets toy_rng \<and> fst (generate_data toy_rng 3 0) = fst (generate_data toy_rng 3 17)"
  using generate_data_reproducible [of toy_rng 3 0 17] seed_resets_toy by simp

text \<open>
  C9. The frame and the state the generator is left in are functions of the sample
  count alone; in particular a second call, made after the first one has advanced the
  generator, returns the frame of the first call again.
\<close>

theorem generate_data_depends_on_num_samples_only:
  assumes "seed_resets R"
  shows "(\<exists>d s. \<forall>g. generate_data R n g = (d, s)) \<and>
         fst (generate_data R n (snd (generate_data R n g))) = fst (generate_data R n g)"
proof
  have "generate_data R n g' = (fst (generate_data R n g), snd (generate_data R n g))" for g'
    using generate_data_locals_seed [OF assms, of n g' g] by (simp add: generate_data_def Let_def)
  then show "\<exists>d s. \<forall>g. generate_data R n g = (d, s)" by blast
  show "fst (generate_data R n (snd (generate_data R n g))) = fst (generate_data R n g)"
    using generate_data_locals_seed [OF assms, of n "snd (generate_data R n g)" g]
    by (simp add: generate_data_def Let_def)
qed

theorem generate_data_depends_on_num_samples_only_witness:
  "seed_resets toy_rng \<and> (\<exists>d s. \<forall>g. generate_data toy_rng 3 g = (d, s)) \<and>
   fst (generate_data toy_rng 3 (snd (generate_data toy_rng 3 0))) = fst (generate_data toy_rng 3 0)"
  using generate_data_depends_on_num_samples_only [of toy_rng 3 0] seed_resets_toy by simp

lemma ratio_error:
  fixes x c u e :: real
  assumes "0 < c" and "\<bar>x - c * u\<bar> \<le> e"
  shows "\<bar>x / c - u\<bar> \<le> e / c"
proof -
  from assms(1) have "x / c - u = (x - c * u) / c"
    by (simp add: field_simps)
  then have "\<bar>x / c - u\<bar> = \<bar>x - c * u\<bar> / c"
    using assms(1) by simp
  also from assms have "\<dots> \<le> e / c"
    by (simp add: divide_right_mono)
  finally show ?thesis .
qed

text \<open>
  C10. One factor between 0.8 and 1.2 is shared by all rows of a frame: every total
  charge is the tenure times the monthly charge times that factor, rounded to two
  decimals, so that the quotient of the total charge by tenure times monthly charge
  differs from the factor by the rounding only.
\<close>

theorem total_charges_shared_jitter:
  assumes "uniform_in_range R"
  shows "8 / 10 \<le> jitter (generate_data_locals R n g) \<and> jitter (generate_data_locals R n g) \<le> 12 / 10 \<and>
         (\<forall>i < length (total_charges (data (generate_data_locals R n g))).
            total_charges (data (generate_data_locals R n g)) ! i =
              np_round (of_int (tenure (data (generate_data_locals R n g)) ! i)
                        * monthly_charges (data (generate_data_locals R n g)) ! i
                        * jitter (generate_data_locals R n g)) 2 \<and>
            (0 < of_int (tenure (data (generate_data_locals R n g)) ! i)
                 * monthly_charges (data (generate_data_locals R n g)) ! i \<longrightarrow>
             \<bar>total_charges (data (generate_data_locals R n g)) ! i
                / (of_int (tenure (data (generate_data_locals R n g)) ! i)
                   * monthly_charges (data (generate_data_locals R n g)) ! i)
                - jitter (generate_data_locals R n g)\<bar>
               \<le> (1 / 200)
                  / (of_int (tenure (data (generate_data_locals R n g)) ! i)
                     * monthly_charges (data (generate_data_locals R n g)) ! i)))"
proof (intro conjI allI impI)
  define g2 where "g2 = snd (random_uniform R 20 100 n (snd (random_randint R 1 72 n (random_seed R 42 g))))"
  have j: "jitter (generate_data_locals R n g) = fst (random_uniform_scalar R (8 / 10) (12 / 10) g2)"
    by (simp add: generate_data_locals_def Let_def split_def g2_def)
  have "(8 / 10 :: real) \<le> 12 / 10" by simp
  with assms have "8 / 10 \<le> fst (random_uniform_scalar R (8 / 10) (12 / 10) g2)
      \<and> fst (random_uniform_scalar R (8 / 10) (12 / 10) g2) \<le> 12 / 10"
    unfolding uniform_in_range_def by blast
  then show "8 / 10 \<le> jitter (generate_data_locals R n g)" "jitter (generate_data_locals R n g) \<le> 12 / 10"
    by (simp_all only: j)
next
  fix i assume "i < length (total_charges (data (generate_data_locals R n g)))"
  then show eq: "total_charges (data (generate_data_locals R n g)) ! i =
              np_round (of_int (tenure (data (generate_data_locals R n g)) ! i)
                        * monthly_charges (data (generate_data_locals R n g)) ! i
                        * jitter (generate_data_locals R n g)) 2"
    by (simp add: generate_data_locals_def Let_def split_def)
  define c where "c = of_int (tenure (data (generate_data_locals R n g)) ! i)
                 * monthly_charges (data (generate_data_locals R n g)) ! i"
  assume "0 < of_int (tenure (data (generate_data_locals R n g)) ! i)
                 * monthly_charges (data (generate_data_locals R n g)) ! i"
  then have pos: "0 < c" by (simp add: c_def)
  have "\<bar>total_charges (data (generate_data_locals R n g)) ! i - c * jitter (generate_data_locals R n g)\<bar> \<le> 1 / 200"
    unfolding eq c_def by (rule np_round_error)
  with pos have "\<bar>total_charges (data (generate_data_locals R n g)) ! i / c - jitter (generate_data_locals R n g)\<bar>
      \<le> (1 / 200) / c"
    by (rule ratio_error)
  then show "\<bar>total_charges (data (generate_data_locals R n g)) ! i
                / (of_int (tenure (data (generate_data_locals R n g)) ! i)
                   * monthly_charges (data (generate_data_locals R n g)) ! i)
                - jitter (generate_data_locals R n g)\<bar>
               \<le> (1 / 200)
                  / (of_int (tenure (data (generate_data_locals R n g)) ! i)
                     * monthly_charges (data (generate_data_locals R n g)) ! i)"
    by (simp only: c_def)
qed

theorem total_charges_shared_jitter_witness:
  "uniform_in_range toy_rng \<and>
   jitter (generate_data_locals toy_rng 3 0) = 2711 / 2500 \<and>
   total_charges (data (generate_data_locals toy_rng 3 0)) ! 2 = np_round (62 * (948 / 25) * (2711 / 2500)) 2 \<and>
   \<bar>(254947 / 100) / (62 * (948 / 25)) - 2711 / 2500\<bar> \<le> (1 / 200) / (62 * (948 / 25 :: real))"
proof -
  have "(2::nat) < length (total_charges (data (generate_data_locals toy_rng 3 0)))"
    by (simp add: toy_locals)
  with total_charges_shared_jitter [OF uniform_in_range_toy, of 3 0]
  have "total_charges (data (generate_data_locals toy_rng 3 0)) ! 2 =
              np_round (of_int (tenure (data (generate_data_locals toy_rng 3 0)) ! 2)
                        * monthly_charges (data (generate_data_locals toy_rng 3 0)) ! 2
                        * jitter (generate_data_locals toy_rng 3 0)) 2 \<and>
            (0 < of_int (tenure (data (generate_data_locals toy_rng 3 0)) ! 2)
                 * monthly_charges (data (generate_data_locals toy_rng 3 0)) ! 2 \<longrightarrow>
             \<bar>total_charges (data (generate_data_locals toy_rng 3 0)) ! 2
                / (of_int (tenure (data (generate_data_locals toy_rng 3 0)) ! 2)
                   * monthly_charges (data (generate_data_locals toy_rng 3 0)) ! 2)
                - jitter (generate_data_locals toy_rng 3 0)\<bar>
               \<le> (1 / 200)
                  / (of_int (tenure (data (generate_data_locals toy_rng 3 0)) ! 2)
                     * monthly_charges (data (generate_data_locals toy_rng 3 0)) ! 2))"
    by blast
  then have "total_charges (data (generate_data_locals toy_rng 3 0)) ! 2 = np_round (62 * (948 / 25) * (2711 / 2500)) 2 \<and>
   \<bar>(254947 / 100) / (62 * (948 / 25)) - 2711 / 2500\<bar> \<le> (1 / 200) / (62 * (948 / 25 :: real))"
    unfolding toy_locals by simp
  then show ?thesis
    using uniform_in_range_toy by (simp add: toy_locals)
qed

section \<open>The churn classifier pipeline\<close>

text \<open>
  \<^verbatim>\<open>
  categorical_features = ['contract', 'internet_service', 'online_security']
  numeric_features = ['tenure', 'monthly_charges', 'total_charges']
  preprocessor = ColumnTransformer(transformers=[
      ('num', 'passthrough', numeric_features),
      ('cat', OneHotEncoder(handle_unknown='ignore'), categorical_features)])
  model = Pipeline(steps=[('preprocessor', preprocessor),
                          ('classifier', RandomForestClassifier(random_state=42))])
  model.fit(X_train, y_train)
  \<close>
  and, in the application,
  \<^verbatim>\<open>
  prediction = model.predict(input_data)[0]
  proba = model.predict_proba(input_data)[0]
  \<close>

  The classes are scikit-learn's; what they do is modelled after the library's
  documentation. A row of the frame without the label column is a record, and the
  column transformer puts the three numeric columns first and the indicator columns of
  the three categorical columns behind them. Attribute names of scikit-learn that end
  in an underscore are written without it, and floating-point numbers are real numbers.
\<close>

record customer =
  customer_tenure :: real
  customer_monthly_charges :: real
  customer_total_charges :: real
  customer_contract :: string
  customer_internet_service :: string
  customer_online_security :: string

definition numeric_features :: "customer \<Rightarrow> real list" where
  "numeric_features x = [customer_tenure x, customer_monthly_charges x, customer_total_charges x]"

definition categorical_features :: "customer \<Rightarrow> string list" where
  "categorical_features x = [customer_contract x, customer_internet_service x, customer_online_security x]"

text \<open>
  \<open>OneHotEncoder\<close>. Fitting learns, for each column, the values that occur in it, in
  sorted order (\<open>categories_\<close>), and raises \<open>ValueError\<close> on an empty training set.
  Transforming writes one indicator per learned category. For a value that was not
  learned, \<open>handle_unknown='error'\<close> (the default) raises \<open>ValueError\<close> and
  \<open>handle_unknown='ignore'\<close> goes on, so that all indicators of that column are 0.
\<close>

datatype handle_unknown = unknown_error | unknown_ignore

record OneHotEncoder =
  handle_unknown :: handle_unknown
  categories :: "string list list"

definition unique :: "'a::linorder list \<Rightarrow> 'a list" where
  "unique xs = sort (remdups xs)"

definition OneHotEncoder_fit :: "handle_unknown \<Rightarrow> string list list \<Rightarrow> error + OneHotEncoder" where
  "OneHotEncoder_fit h X =
     (case X of
        [] \<Rightarrow> Inl ValueError
      | x # _ \<Rightarrow>
          Inr \<lparr> handle_unknown = h,
                categories = map (\<lambda>j. unique (map (\<lambda>r. r ! j) X)) [0..<length x] \<rparr>)"

definition one_hot :: "string list \<Rightarrow> string \<Rightarrow> real list" where
  "one_hot cats v = map (\<lambda>c. if c = v then 1 else 0) cats"

definition OneHotEncoder_transform :: "OneHotEncoder \<Rightarrow> string list \<Rightarrow> error + real list" where
  "OneHotEncoder_transform enc x =
     (if length x \<noteq> length (categories enc) then Inl ValueError
      else if handle_unknown enc = unknown_error \<and>
              list_ex (\<lambda>(cats, v). v \<notin> set cats) (zip (categories enc) x) then Inl ValueError
      else Inr (concat (map2 one_hot (categories enc) x)))"

definition ColumnTransformer_transform :: "OneHotEncoder \<Rightarrow> customer \<Rightarrow> error + real list" where
  "ColumnTransformer_transform enc x =
     (case OneHotEncoder_transform enc (categorical_features x) of
        Inl e \<Rightarrow> Inl e
      | Inr onehot \<Rightarrow> Inr (numeric_features x @ onehot))"

text \<open>
  \<open>RandomForestClassifier\<close>, once fitted: its trees (\<open>estimators_\<close>), the sorted
  class labels (\<open>classes_\<close>) and the width of the training matrix
  (\<open>n_features_in_\<close>). A tree sends a row to a leaf, which holds one weight per
  class; the probabilities of a tree are the weights of the leaf divided by their sum
  (by 1 when the sum is 0). The forest raises \<open>ValueError\<close> for a row of another
  width, averages the probabilities of its trees, and predicts the class at the first
  maximum of the average.
\<close>

datatype tree = Leaf "real list" | Node nat real tree tree

fun tree_apply :: "tree \<Rightarrow> real list \<Rightarrow> real list" where
  "tree_apply (Leaf v) x = v"
| "tree_apply (Node f threshold left right) x =
     (if x ! f \<le> threshold then tree_apply left x else tree_apply right x)"

definition tree_predict_proba :: "tree \<Rightarrow> real list \<Rightarrow> real list" where
  "tree_predict_proba t x =
     (let v = tree_apply t x; s = sum_list v; normalizer = (if s = 0 then 1 else s)
      in map (\<lambda>p. p / normalizer) v)"

record RandomForestClassifier =
  estimators :: "tree list"
  classes :: "nat list"
  n_features_in :: nat

definition forest_predict_proba :: "RandomForestClassifier \<Rightarrow> real list \<Rightarrow> error + real list" where
  "forest_predict_proba clf x =
     (if length x \<noteq> n_features_in clf then Inl ValueError
      else Inr (map (\<lambda>k. sum_list (map (\<lambda>t. tree_predict_proba t x ! k) (estimators clf))
                          / of_nat (length (estimators clf)))
                  [0..<length (classes clf)]))"

fun argmax_from :: "real \<Rightarrow> nat \<Rightarrow> nat \<Rightarrow> real list \<Rightarrow> nat" where
  "argmax_from best arg i [] = arg"
| "argmax_from best arg i (x # xs) =
     (if best < x then argmax_from x i (Suc i) xs else argmax_from best arg (Suc i) xs)"

definition argmax :: "real list \<Rightarrow> error + nat" where
  "argmax xs = (case xs of [] \<Rightarrow> Inl ValueError | x # rest \<Rightarrow> Inr (argmax_from x 0 1 rest))"

definition forest_predict :: "RandomForestClassifier \<Rightarrow> real list \<Rightarrow> error + nat" where
  "forest_predict clf x =
     (case forest_predict_proba clf x of
        Inl e \<Rightarrow> Inl e
      | Inr proba \<Rightarrow> (case argmax proba of Inl e \<Rightarrow> Inl e | Inr i \<Rightarrow> Inr (classes clf ! i)))"

text \<open>
  The pipeline. How a forest is grown from the training matrix is not modelled: the
  fitting function of the classifier is a parameter \<open>forest_fit\<close>.
\<close>

record Pipeline =
  preprocessor :: OneHotEncoder
  classifier :: RandomForestClassifier

definition Pipeline_fit ::
  "(real list list \<Rightarrow> nat list \<Rightarrow> RandomForestClassifier) \<Rightarrow> customer list \<Rightarrow> nat list \<Rightarrow> error + Pipeline" where
  "Pipeline_fit forest_fit X_train y_train =
     (case OneHotEncoder_fit unknown_ignore (map categorical_features X_train) of
        Inl e \<Rightarrow> Inl e
      | Inr enc \<Rightarrow>
          (case collect (map (ColumnTransformer_transform enc) X_train) of
             Inl e \<Rightarrow> Inl e
           | Inr Xt \<Rightarrow> Inr \<lparr> preprocessor = enc, classifier = forest_fit Xt y_train \<rparr>))"

definition predict_proba :: "Pipeline \<Rightarrow> customer \<Rightarrow> error + real list" where
  "predict_proba model x =
     (case ColumnTransformer_transform (preprocessor model) x of
        Inl e \<Rightarrow> Inl e
      | Inr xt \<Rightarrow> forest_predict_proba (classifier model) xt)"

definition predict :: "Pipeline \<Rightarrow> customer \<Rightarrow> error + nat" where
  "predict model x =
     (case ColumnTransformer_transform (preprocessor model) x of
        Inl e \<Rightarrow> Inl e
      | Inr xt \<Rightarrow> forest_predict (classifier model) xt)"




subsection \<open>A small training set\<close>

text \<open>
  A fitting function that grows the same two trees on every training set, three
  customers to fit on, and a customer whose contract none of them has.
\<close>

definition stump_fit :: "real list list \<Rightarrow> nat list \<Rightarrow> RandomForestClassifier" where
  "stump_fit Xt y =
     (let counts = map (\<lambda>c. of_nat (count_list y c)) (unique y)
      in \<lparr> estimators = [Node 0 24 (Leaf counts) (Leaf (rev counts)), Leaf counts],
            classes = unique y,
            n_features_in = (case Xt of [] \<Rightarrow> 0 | x # _ \<Rightarrow> length x) \<rparr>)"

definition train_X :: "customer list" where
  "train_X =
    [ \<lparr> customer_tenure = 12, customer_monthly_charges = 70, customer_total_charges = 840,
        customer_contract = ''Month-to-month'', customer_internet_service = ''Fiber optic'',
        customer_online_security = ''No'' \<rparr>,
      \<lparr> customer_tenure = 60, customer_monthly_charges = 30, customer_total_charges = 1800,
        customer_contract = ''Two year'', customer_internet_service = ''DSL'',
        customer_online_security = ''Yes'' \<rparr>,
      \<lparr> customer_tenure = 24, customer_monthly_charges = 50, customer_total_charges = 1200,
        customer_contract = ''One year'', customer_internet_service = ''DSL'',
        customer_online_security = ''No'' \<rparr> ]"

definition train_y :: "nat list" where
  "train_y = [1, 0, 0]"

definition unseen_customer :: customer where
  "unseen_customer =
     \<lparr> customer_tenure = 5, customer_monthly_charges = 80, customer_total_charges = 400,
       customer_contract = ''Weekly'', customer_internet_service = ''DSL'',
       customer_online_security = ''No'' \<rparr>"

definition fitted_example :: Pipeline where
  "fitted_example =
     \<lparr> preprocessor =
         \<lparr> handle_unknown = unknown_ignore,
           categories = [[''Month-to-month'', ''One year'', ''Two year''],
                         [''DSL'', ''Fiber optic''], [''No'', ''Yes'']] \<rparr>,
       classifier =
         \<lparr> estimators = [Node 0 24 (Leaf [2, 1]) (Leaf [1, 2]), Leaf [2, 1]],
           classes = [0, 1], n_features_in = 10 \<rparr> \<rparr>"

subsection \<open>Properties of the pipeline\<close>








lemma OneHotEncoder_transform_error:
  assumes "handle_unknown enc = unknown_error" and "categories enc = [c0, c1, c2]"
    and "customer_contract x \<notin> set c0"
  shows "OneHotEncoder_transform enc (categorical_features x) = Inl ValueError"
  using assms by (simp add: OneHotEncoder_transform_def categorical_features_def)







lemmas pipeline_eval =
  Pipeline_fit_def OneHotEncoder_fit_def OneHotEncoder_transform_def ColumnTransformer_transform_def
  categorical_features_def numeric_features_def one_hot_def unique_def stump_fit_def
  predict_def predict_proba_def forest_predict_def forest_predict_proba_def tree_predict_proba_def
  argmax_def Let_def

lemma fit_train: "Pipeline_fit stump_fit train_X train_y = Inr fitted_example"
  by (simp add: train_X_def train_y_def fitted_example_def pipeline_eval)

lemma unseen_example:
  "ColumnTransformer_transform (preprocessor fitted_example) unseen_customer
     = Inr [5, 80, 400, 0, 0, 0, 1, 0, 1, 0]"
  "predict_proba fitted_example unseen_customer = Inr [2 / 3, 1 / 3]"
  "predict fitted_example unseen_customer = Inr 0"
  by (simp_all add: fitted_example_def unseen_customer_def pipeline_eval upt_rec)

lemma unseen_example_error:
  "OneHotEncoder_transform ((preprocessor fitted_example) \<lparr> handle_unknown := unknown_error \<rparr>)
     (categorical_features unseen_customer) = Inl ValueError"
  by (simp add: fitted_example_def unseen_customer_def pipeline_eval)


end
